theory Spec2Isabelle
  imports Main "HOL-Library.Sublist"
begin

section \<open>The two scripts and what they touch\<close>

text \<open>
  The repository holds two scripts, \<^verbatim>\<open>openai_agent.py\<close> and
  \<^verbatim>\<open>projects/reasoning/bioagents/agents/openai_agent.py\<close>. Each one runs four
  statements at module level: \<^verbatim>\<open>load_dotenv()\<close>, \<^verbatim>\<open>os.getenv("API_KEY")\<close>,
  \<^verbatim>\<open>OpenAI(api_key=API_KEY)\<close> followed by \<^verbatim>\<open>client.chat.completions.create(...)\<close>,
  and \<^verbatim>\<open>print(completion.choices[0].message.content)\<close>.

  The packages \<^verbatim>\<open>dotenv\<close> and \<^verbatim>\<open>openai\<close> are not part of the repository. What
  they do is a parameter of the model (a record of three functions); an exception raised
  by one of them is a value \<open>Inl\<close>. The process is modelled by explicit state passing
  over its environment, its standard output and the sequence of calls it has made.
\<close>

subsection \<open>Request and response\<close>

type_synonym environ = "string \<rightharpoonup> string"

text \<open>The keyword arguments of \<^verbatim>\<open>create\<close>; every message is a dict from strings to strings.\<close>

record chat_request =
  model :: string
  messages :: "(string \<rightharpoonup> string) list"

text \<open>
  The response object, typed as the \<^verbatim>\<open>openai\<close> package declares it. The scripts read
  \<open>choices\<close>, \<open>message\<close> and \<open>content\<close> only; \<open>completion_id\<close>, \<open>index\<close>,
  \<open>finish_reason\<close> and \<open>role\<close> stand for the fields they never read. The content of a
  message may be \<^verbatim>\<open>None\<close>.
\<close>

record chat_completion_message =
  role :: string
  content :: "string option"

record choice =
  index :: nat
  message :: chat_completion_message
  finish_reason :: string

record chat_completion =
  completion_id :: string
  choices :: "choice list"

subsection \<open>The imported packages\<close>

text \<open>
  \<open>load_dotenv\<close> updates the environment from the local file, if there is one.
  \<open>OpenAI\<close> is the client constructor: it sees the environment and the \<^verbatim>\<open>api_key\<close>
  argument and returns a client or raises. \<open>create\<close> is
  \<^verbatim>\<open>client.chat.completions.create\<close>: it returns a completion or raises; what the client
  sends over the network inside one call, and how often, is the package's matter. An error
  of the package is carried as its text.
\<close>

record 'c packages =
  load_dotenv :: "environ \<Rightarrow> environ"
  OpenAI :: "environ \<Rightarrow> string option \<Rightarrow> string + 'c"
  create :: "'c \<Rightarrow> chat_request \<Rightarrow> string + chat_completion"

subsection \<open>Standard output\<close>

text \<open>
  Standard output is a text stream with an encoding, which the interpreter fixes when the
  process starts (from \<^verbatim>\<open>PYTHONIOENCODING\<close> and the locale); nothing a script does later
  changes it. A text of ASCII characters only can always be written. For any other text the
  encoding decides: an \<open>encoding\<close> is the set of such texts it can encode, as a predicate.
\<close>

type_synonym encoding = "string \<Rightarrow> bool"

definition is_ascii :: "char \<Rightarrow> bool" where
  "is_ascii c = (of_char c < (128::nat))"

definition encodable :: "encoding \<Rightarrow> string \<Rightarrow> bool" where
  "encodable enc s = (list_all is_ascii s \<or> enc s)"

subsection \<open>The process\<close>

text \<open>
  The exceptions a run can end with: an error raised inside the \<^verbatim>\<open>openai\<close> package, with
  its text, the \<^verbatim>\<open>IndexError\<close> of the script's own \<^verbatim>\<open>choices[0]\<close>, and the
  \<^verbatim>\<open>UnicodeEncodeError\<close> of \<^verbatim>\<open>print\<close>.
\<close>

datatype exn = ProviderError string | IndexError | UnicodeEncodeError

text \<open>
  The calls a script makes, in the order it makes them: \<open>Load\<close> for \<^verbatim>\<open>load_dotenv()\<close>,
  \<open>Construct k\<close> for the constructor called with \<^verbatim>\<open>api_key=k\<close>, \<open>Request r\<close> for
  \<^verbatim>\<open>create\<close> called with the keyword arguments \<open>r\<close>, \<open>Print s\<close> for \<^verbatim>\<open>print\<close>
  called with a value whose \<^verbatim>\<open>str\<close> is \<open>s\<close>. A call is recorded when it is made,
  whether it returns or raises.
\<close>

datatype event =
    Load
  | Construct "string option"
  | Request chat_request
  | Print string

record world =
  environ :: environ
  encoding :: encoding
  stdout :: string
  trace :: "event list"

datatype outcome = Exit0 | Uncaught exn

text \<open>The interpreter exits with 0 at the end of the module and with 1 on an uncaught exception.\<close>

fun exit_status :: "outcome \<Rightarrow> nat" where
  "exit_status Exit0 = 0"
| "exit_status (Uncaught e) = 1"

definition emit :: "event \<Rightarrow> world \<Rightarrow> world" where
  "emit ev w = w\<lparr>trace := trace w @ [ev]\<rparr>"

text \<open>\<^verbatim>\<open>str(x)\<close> for a value that is a string or \<^verbatim>\<open>None\<close>.\<close>

fun py_str :: "string option \<Rightarrow> string" where
  "py_str None = ''None''"
| "py_str (Some s) = s"

text \<open>
  \<^verbatim>\<open>print(x)\<close> writes \<^verbatim>\<open>str(x)\<close> and a newline to standard output. When the encoding
  of standard output cannot encode \<^verbatim>\<open>str(x)\<close> it raises \<^verbatim>\<open>UnicodeEncodeError\<close> and
  nothing is written.
\<close>

definition py_print :: "string option \<Rightarrow> world \<Rightarrow> exn + world" where
  "py_print x w =
     (if encodable (encoding w) (py_str x)
      then Inr (w\<lparr>stdout := stdout w @ py_str x @ [CHR 0x0A]\<rparr>)
      else Inl UnicodeEncodeError)"

text \<open>\<^verbatim>\<open>xs[0]\<close> raises \<^verbatim>\<open>IndexError\<close> on an empty list.\<close>

fun index0 :: "'a list \<Rightarrow> exn + 'a" where
  "index0 [] = Inl IndexError"
| "index0 (x # xs) = Inr x"

subsection \<open>\<^verbatim>\<open>src/openai_agent.py\<close>\<close>

definition openai_agent :: "'c packages \<Rightarrow> world \<Rightarrow> outcome \<times> world" where
  "openai_agent pk w0 =
    (let w1 = emit Load (w0\<lparr>environ := load_dotenv pk (environ w0)\<rparr>);
         API_KEY = environ w1 ''API_KEY'';
         w2 = emit (Construct API_KEY) w1
     in case OpenAI pk (environ w2) API_KEY of
          Inl e \<Rightarrow> (Uncaught (ProviderError e), w2)
        | Inr client \<Rightarrow>
            (let req = \<lparr>model = ''gpt-4.1-mini'',
                        messages = [[''role'' \<mapsto> ''user'',
                                     ''content'' \<mapsto> ''What is the capital of France?'']]\<rparr>;
                 w3 = emit (Request req) w2
             in case create pk client req of
                  Inl e \<Rightarrow> (Uncaught (ProviderError e), w3)
                | Inr completion \<Rightarrow>
                    (case index0 (choices completion) of
                       Inl e \<Rightarrow> (Uncaught e, w3)
                     | Inr c \<Rightarrow>
                         (let w4 = emit (Print (py_str (content (message c)))) w3
                          in case py_print (content (message c)) w4 of
                               Inl e \<Rightarrow> (Uncaught e, w4)
                             | Inr w5 \<Rightarrow> (Exit0, w5)))))"

subsection \<open>\<^verbatim>\<open>src/projects/reasoning/bioagents/agents/openai_agent.py\<close>\<close>

definition bioagents_openai_agent :: "'c packages \<Rightarrow> world \<Rightarrow> outcome \<times> world" where
  "bioagents_openai_agent pk w0 =
    (let w1 = emit Load (w0\<lparr>environ := load_dotenv pk (environ w0)\<rparr>);
         API_KEY = environ w1 ''API_KEY'';
         w2 = emit (Construct API_KEY) w1
     in case OpenAI pk (environ w2) API_KEY of
          Inl e \<Rightarrow> (Uncaught (ProviderError e), w2)
        | Inr client \<Rightarrow>
            (let req = \<lparr>model = ''gpt-4.1-mini'',
                        messages = [[''role'' \<mapsto> ''user'',
                                     ''content'' \<mapsto>
                                        ''Write me a one paragraph essay on World War II.'']]\<rparr>;
                 w3 = emit (Request req) w2
             in case create pk client req of
                  Inl e \<Rightarrow> (Uncaught (ProviderError e), w3)
                | Inr completion \<Rightarrow>
                    (case index0 (choices completion) of
                       Inl e \<Rightarrow> (Uncaught e, w3)
                     | Inr c \<Rightarrow>
                         (let w4 = emit (Print (py_str (content (message c)))) w3
                          in case py_print (content (message c)) w4 of
                               Inl e \<Rightarrow> (Uncaught e, w4)
                             | Inr w5 \<Rightarrow> (Exit0, w5)))))"

subsection \<open>Running a script as a process\<close>

text \<open>
  A process starts with the encoding of its standard output and the environment it is
  given, and has written and called nothing.
\<close>

definition start :: "encoding \<Rightarrow> environ \<Rightarrow> world" where
  "start enc env = \<lparr>environ = env, encoding = enc, stdout = [], trace = []\<rparr>"

fun requests :: "event list \<Rightarrow> chat_request list" where
  "requests [] = []"
| "requests (Request r # evs) = r # requests evs"
| "requests (ev # evs) = requests evs"

text \<open>The value of \<^verbatim>\<open>API_KEY\<close> once the local environment file has been loaded.\<close>

definition api_key_after_load :: "'c packages \<Rightarrow> environ \<Rightarrow> string option" where
  "api_key_after_load pk env = load_dotenv pk env ''API_KEY''"

text \<open>What the client constructor does in a process started with \<open>env\<close>.\<close>

definition client_for :: "'c packages \<Rightarrow> environ \<Rightarrow> string + 'c" where
  "client_for pk env = OpenAI pk (load_dotenv pk env) (api_key_after_load pk env)"

subsection \<open>The specification's reading\<close>

text \<open>
  The request the specification describes: the model identifier and a single message
  with role \<^verbatim>\<open>user\<close> whose content is the prompt.
\<close>

definition user_request :: "string \<Rightarrow> chat_request" where
  "user_request prompt =
     \<lparr>model = ''gpt-4.1-mini'',
      messages = [[''role'' \<mapsto> ''user'', ''content'' \<mapsto> prompt]]\<rparr>"

text \<open>
  The specification's one script with the prompt as its input: load the configuration,
  construct the client, send one request, print the text of the first choice.
\<close>

definition parameterized_script :: "string \<Rightarrow> 'c packages \<Rightarrow> world \<Rightarrow> outcome \<times> world" where
  "parameterized_script prompt pk w0 =
    (let loaded = emit Load (w0\<lparr>environ := load_dotenv pk (environ w0)\<rparr>);
         key = environ loaded ''API_KEY'';
         constructing = emit (Construct key) loaded
     in case OpenAI pk (environ loaded) key of
          Inl e \<Rightarrow> (Uncaught (ProviderError e), constructing)
        | Inr client \<Rightarrow>
            (let calling = emit (Request (user_request prompt)) constructing
             in case create pk client (user_request prompt) of
                  Inl e \<Rightarrow> (Uncaught (ProviderError e), calling)
                | Inr completion \<Rightarrow>
                    (case choices completion of
                       [] \<Rightarrow> (Uncaught IndexError, calling)
                     | c # cs \<Rightarrow>
                         (let text = py_str (content (message c));
                              printing = emit (Print text) calling
                          in if encodable (encoding printing) text
                             then (Exit0, printing\<lparr>stdout := stdout printing @ text @ [CHR 0x0A]\<rparr>)
                             else (Uncaught UnicodeEncodeError, printing)))))"

text \<open>The four steps of the specification's linear sequence, and the step an event belongs to.\<close>

datatype step = Load_configuration | Construct_client | Call | Print_response

fun step_of :: "event \<Rightarrow> step" where
  "step_of Load = Load_configuration"
| "step_of (Construct k) = Construct_client"
| "step_of (Request r) = Call"
| "step_of (Print s) = Print_response"

subsection \<open>Observations of a finished run\<close>

text \<open>
  \<open>issued\<close> lists the calls of \<^verbatim>\<open>create\<close> a run has made, by their arguments;
  \<open>printed\<close> is what standard output holds at the end; \<open>steps\<close> are the calls by kind.
\<close>

definition issued :: "outcome \<times> world \<Rightarrow> chat_request list" where
  "issued r = requests (trace (snd r))"

definition printed :: "outcome \<times> world \<Rightarrow> string" where
  "printed r = stdout (snd r)"

definition steps :: "outcome \<times> world \<Rightarrow> step list" where
  "steps r = map step_of (trace (snd r))"

subsection \<open>Test doubles\<close>

text \<open>
  Inputs for the examples below. \<open>no_env_file\<close> is \<open>load_dotenv\<close> where no local file
  exists. \<open>key_or_variable\<close> is a client constructor that takes the \<^verbatim>\<open>api_key\<close>
  argument when it is given, the variable \<^verbatim>\<open>OPENAI_API_KEY\<close> otherwise, and raises when
  both are absent; the client it returns is the key it holds. \<open>mocked\<close> bundles them
  with a completion call that gives the same result for every request.
  \<open>ascii_stdout\<close> encodes ASCII only, as under \<^verbatim>\<open>PYTHONIOENCODING=ascii\<close>;
  \<open>utf8_stdout\<close> encodes every text used here.
\<close>

definition no_env_file :: "environ \<Rightarrow> environ" where
  "no_env_file env = env"

definition key_or_variable :: "environ \<Rightarrow> string option \<Rightarrow> string + string" where
  "key_or_variable env key =
     (case key of
        Some k \<Rightarrow> Inr k
      | None \<Rightarrow>
          (case env ''OPENAI_API_KEY'' of
             Some k \<Rightarrow> Inr k
           | None \<Rightarrow> Inl ''The api_key client option must be set''))"

definition mocked :: "string + chat_completion \<Rightarrow> string packages" where
  "mocked result =
     \<lparr>load_dotenv = no_env_file, OpenAI = key_or_variable, create = (\<lambda>client req. result)\<rparr>"

definition ascii_stdout :: encoding where
  "ascii_stdout s = False"

definition utf8_stdout :: encoding where
  "utf8_stdout s = True"

definition env_empty :: environ where
  "env_empty = Map.empty"

definition env_api_key :: environ where
  "env_api_key = [''API_KEY'' \<mapsto> ''sk-test'']"


definition env_openai_api_key :: environ where
  "env_openai_api_key = [''OPENAI_API_KEY'' \<mapsto> ''sk-other'']"

definition env_home :: environ where
  "env_home = [''HOME'' \<mapsto> ''/root'']"

definition paris_completion :: chat_completion where
  "paris_completion =
     \<lparr>completion_id = ''chatcmpl-1'',
      choices = [\<lparr>index = 0,
                  message = \<lparr>role = ''assistant'', content = Some ''Paris.''\<rparr>,
                  finish_reason = ''stop''\<rparr>]\<rparr>"

definition two_choices_completion :: chat_completion where
  "two_choices_completion =
     \<lparr>completion_id = ''chatcmpl-2'',
      choices = [\<lparr>index = 0,
                  message = \<lparr>role = ''model'', content = Some ''Paris.''\<rparr>,
                  finish_reason = ''length''\<rparr>,
                 \<lparr>index = 1,
                  message = \<lparr>role = ''assistant'', content = Some ''Lyon.''\<rparr>,
                  finish_reason = ''stop''\<rparr>]\<rparr>"



text \<open>A text with a character beyond ASCII (the last one, \<^verbatim>\<open>0xE9\<close>), and a response with it.\<close>

definition cafe :: string where
  "cafe = ''caf'' @ [CHR 0xE9]"



section \<open>How a run unfolds\<close>

lemma index0_Inl: "index0 xs = Inl e \<longleftrightarrow> xs = [] \<and> e = IndexError"
  by (cases xs) auto

lemma index0_Inr: "index0 xs = Inr x \<longleftrightarrow> (\<exists>ys. xs = x # ys)"
  by (cases xs) auto

lemma openai_agent_parameterized:
  "openai_agent pk w = parameterized_script ''What is the capital of France?'' pk w"
  unfolding openai_agent_def parameterized_script_def user_request_def Let_def
  by (auto simp: index0_Inl index0_Inr emit_def py_print_def split: sum.splits list.splits)

lemma bioagents_openai_agent_parameterized:
  "bioagents_openai_agent pk w =
     parameterized_script ''Write me a one paragraph essay on World War II.'' pk w"
  unfolding bioagents_openai_agent_def parameterized_script_def user_request_def Let_def
  by (auto simp: index0_Inl index0_Inr emit_def py_print_def split: sum.splits list.splits)

lemma run_constructor_raises:
  assumes "client_for pk env = Inl e"
  shows "parameterized_script prompt pk (start enc env) =
           (Uncaught (ProviderError e),
            \<lparr>environ = load_dotenv pk env, encoding = enc, stdout = [],
             trace = [Load, Construct (api_key_after_load pk env)]\<rparr>)"
  using assms
  by (simp add: parameterized_script_def client_for_def api_key_after_load_def start_def
        emit_def Let_def)

lemma run_create_raises:
  assumes "client_for pk env = Inr cl" and "create pk cl (user_request prompt) = Inl e"
  shows "parameterized_script prompt pk (start enc env) =
           (Uncaught (ProviderError e),
            \<lparr>environ = load_dotenv pk env, encoding = enc, stdout = [],
             trace = [Load, Construct (api_key_after_load pk env),
                      Request (user_request prompt)]\<rparr>)"
  using assms
  by (simp add: parameterized_script_def client_for_def api_key_after_load_def start_def
        emit_def Let_def)

lemma run_no_choice:
  assumes "client_for pk env = Inr cl" and "create pk cl (user_request prompt) = Inr resp"
    and "choices resp = []"
  shows "parameterized_script prompt pk (start enc env) =
           (Uncaught IndexError,
            \<lparr>environ = load_dotenv pk env, encoding = enc, stdout = [],
             trace = [Load, Construct (api_key_after_load pk env),
                      Request (user_request prompt)]\<rparr>)"
  using assms
  by (simp add: parameterized_script_def client_for_def api_key_after_load_def start_def
        emit_def Let_def)

lemma run_prints:
  assumes "client_for pk env = Inr cl" and "create pk cl (user_request prompt) = Inr resp"
    and "choices resp = c # cs" and "encodable enc (py_str (content (message c)))"
  shows "parameterized_script prompt pk (start enc env) =
           (Exit0,
            \<lparr>environ = load_dotenv pk env, encoding = enc,
             stdout = py_str (content (message c)) @ [CHR 0x0A],
             trace = [Load, Construct (api_key_after_load pk env),
                      Request (user_request prompt), Print (py_str (content (message c)))]\<rparr>)"
  using assms
  by (simp add: parameterized_script_def client_for_def api_key_after_load_def start_def
        emit_def Let_def)

lemma run_print_raises:
  assumes "client_for pk env = Inr cl" and "create pk cl (user_request prompt) = Inr resp"
    and "choices resp = c # cs" and "\<not> encodable enc (py_str (content (message c)))"
  shows "parameterized_script prompt pk (start enc env) =
           (Uncaught UnicodeEncodeError,
            \<lparr>environ = load_dotenv pk env, encoding = enc, stdout = [],
             trace = [Load, Construct (api_key_after_load pk env),
                      Request (user_request prompt), Print (py_str (content (message c)))]\<rparr>)"
  using assms
  by (simp add: parameterized_script_def client_for_def api_key_after_load_def start_def
        emit_def Let_def)

lemma issued_simps:
  "issued (o1, \<lparr>environ = en, encoding = ec, stdout = out, trace = [Load, Construct k]\<rparr>) = []"
  "issued (o1, \<lparr>environ = en, encoding = ec, stdout = out,
                trace = [Load, Construct k, Request rq]\<rparr>) = [rq]"
  "issued (o1, \<lparr>environ = en, encoding = ec, stdout = out,
                trace = [Load, Construct k, Request rq, Print s]\<rparr>) = [rq]"
  by (simp_all add: issued_def)

lemma steps_simps:
  "steps (o1, \<lparr>environ = en, encoding = ec, stdout = out, trace = [Load, Construct k]\<rparr>) =
     [Load_configuration, Construct_client]"
  "steps (o1, \<lparr>environ = en, encoding = ec, stdout = out,
               trace = [Load, Construct k, Request rq]\<rparr>) =
     [Load_configuration, Construct_client, Call]"
  "steps (o1, \<lparr>environ = en, encoding = ec, stdout = out,
               trace = [Load, Construct k, Request rq, Print s]\<rparr>) =
     [Load_configuration, Construct_client, Call, Print_response]"
  by (simp_all add: steps_def)

lemma printed_simp:
  "printed (o1, \<lparr>environ = en, encoding = ec, stdout = out, trace = tr\<rparr>) = out"
  by (simp add: printed_def)

text \<open>Every run of the script is one of the five runs above.\<close>

lemma run_cases:
  obtains (constructor_raises) e where "client_for pk env = Inl e"
  | (create_raises) cl e where "client_for pk env = Inr cl"
      and "create pk cl (user_request prompt) = Inl e"
  | (no_choice) cl resp where "client_for pk env = Inr cl"
      and "create pk cl (user_request prompt) = Inr resp" and "choices resp = []"
  | (prints) cl resp c cs where "client_for pk env = Inr cl"
      and "create pk cl (user_request prompt) = Inr resp" and "choices resp = c # cs"
      and "encodable enc (py_str (content (message c)))"
  | (print_raises) cl resp c cs where "client_for pk env = Inr cl"
      and "create pk cl (user_request prompt) = Inr resp" and "choices resp = c # cs"
      and "\<not> encodable enc (py_str (content (message c)))"
proof (cases "client_for pk env")
  case (Inl e)
  then show ?thesis by (rule constructor_raises)
next
  case (Inr cl)
  show ?thesis
  proof (cases "create pk cl (user_request prompt)")
    case (Inl e)
    with Inr show ?thesis by (rule create_raises)
  next
    case create: (Inr resp)
    show ?thesis
    proof (cases "choices resp")
      case Nil
      with Inr create show ?thesis by (rule no_choice)
    next
      case (Cons c cs)
      show ?thesis
      proof (cases "encodable enc (py_str (content (message c)))")
        case True
        with Inr create Cons show ?thesis by (rule prints)
      next
        case False
        with Inr create Cons show ?thesis by (rule print_raises)
      qed
    qed
  qed
qed

lemma issued_parameterized:
  "issued (parameterized_script prompt pk (start enc env)) =
     (case client_for pk env of Inl e \<Rightarrow> [] | Inr cl \<Rightarrow> [user_request prompt])"
  by (rule run_cases [where pk = pk and env = env and prompt = prompt and enc = enc])
     (simp_all add: run_constructor_raises run_create_raises run_no_choice run_prints
        run_print_raises issued_simps)

subsection \<open>The test doubles, evaluated\<close>

lemma mocked_simps:
  "load_dotenv (mocked res) = no_env_file"
  "OpenAI (mocked res) = key_or_variable"
  "create (mocked res) cl rq = res"
  by (simp_all add: mocked_def)

lemma client_for_mocked_api_key: "client_for (mocked res) env_api_key = Inr ''sk-test''"
  by (simp add: client_for_def api_key_after_load_def mocked_def no_env_file_def
        key_or_variable_def env_api_key_def)


lemma client_for_mocked_empty:
  "client_for (mocked res) env_empty = Inl ''The api_key client option must be set''"
  by (simp add: client_for_def api_key_after_load_def mocked_def no_env_file_def
        key_or_variable_def env_empty_def)

lemma client_for_mocked_home:
  "client_for (mocked res) env_home = Inl ''The api_key client option must be set''"
  by (simp add: client_for_def api_key_after_load_def mocked_def no_env_file_def
        key_or_variable_def env_home_def)

lemma client_for_mocked_openai_api_key:
  "client_for (mocked res) env_openai_api_key = Inr ''sk-other''"
  by (simp add: client_for_def api_key_after_load_def mocked_def no_env_file_def
        key_or_variable_def env_openai_api_key_def)

lemma api_key_mocked:
  "api_key_after_load (mocked res) env_empty = None"
  "api_key_after_load (mocked res) env_home = None"
  "api_key_after_load (mocked res) env_openai_api_key = None"
  "api_key_after_load (mocked res) env_api_key = Some ''sk-test''"
  by (simp_all add: api_key_after_load_def mocked_def no_env_file_def env_empty_def
        env_home_def env_openai_api_key_def env_api_key_def)

lemma encodable_examples:
  "encodable enc ''Paris.''"
  "encodable enc ''Lyon.''"
  "encodable enc ''None''"
  "encodable utf8_stdout cafe"
  "\<not> encodable ascii_stdout cafe"
  by (simp_all add: encodable_def is_ascii_def utf8_stdout_def ascii_stdout_def cafe_def)

section \<open>The claims\<close>

subsection \<open>A missing key\<close>

text \<open>
  C1, as stated: in every run in which \<^verbatim>\<open>API_KEY\<close> is absent after the environment file
  is loaded, the process fails before any network call, so the chat-completion request is
  never issued. The scripts do not look at the value they read: it goes to the client
  constructor as it is. With a constructor that finds a key elsewhere (here in the variable
  \<^verbatim>\<open>OPENAI_API_KEY\<close>), the run below has no \<^verbatim>\<open>API_KEY\<close>, issues the request,
  prints the answer and exits normally.
\<close>

theorem request_issued_without_api_key:
  "api_key_after_load (mocked (Inr paris_completion)) env_openai_api_key = None \<and>
   fst (openai_agent (mocked (Inr paris_completion)) (start utf8_stdout env_openai_api_key)) =
     Exit0 \<and>
   issued (openai_agent (mocked (Inr paris_completion)) (start utf8_stdout env_openai_api_key)) =
     [user_request ''What is the capital of France?''] \<and>
   printed (openai_agent (mocked (Inr paris_completion)) (start utf8_stdout env_openai_api_key)) =
     ''Paris.'' @ [CHR 0x0A]"
  by (simp add: api_key_mocked openai_agent_parameterized issued_simps printed_simp
        run_prints [OF client_for_mocked_openai_api_key, of _ _ paris_completion
          "hd (choices paris_completion)" "[]"]
        mocked_simps paris_completion_def encodable_examples)

text \<open>
  C1, amended: when \<^verbatim>\<open>API_KEY\<close> is absent after the environment file is loaded, the
  scripts hand the absent value (\<^verbatim>\<open>None\<close>) to the client constructor. If the constructor
  raises, the process ends with the constructor's error, no request has been issued and
  nothing has been printed; if the constructor returns a client, the request is issued.
\<close>

theorem absent_key_handed_to_constructor:
  assumes "api_key_after_load pk env = None"
  shows "(case OpenAI pk (load_dotenv pk env) None of
            Inl e \<Rightarrow>
              fst (openai_agent pk (start enc env)) = Uncaught (ProviderError e) \<and>
              issued (openai_agent pk (start enc env)) = [] \<and>
              printed (openai_agent pk (start enc env)) = []
          | Inr cl \<Rightarrow>
              issued (openai_agent pk (start enc env)) =
                [user_request ''What is the capital of France?'']) \<and>
         (case OpenAI pk (load_dotenv pk env) None of
            Inl e \<Rightarrow>
              fst (bioagents_openai_agent pk (start enc env)) = Uncaught (ProviderError e) \<and>
              issued (bioagents_openai_agent pk (start enc env)) = [] \<and>
              printed (bioagents_openai_agent pk (start enc env)) = []
          | Inr cl \<Rightarrow>
              issued (bioagents_openai_agent pk (start enc env)) =
                [user_request ''Write me a one paragraph essay on World War II.''])"
proof -
  from assms have c: "client_for pk env = OpenAI pk (load_dotenv pk env) None"
    by (simp add: client_for_def)
  show ?thesis
  proof (cases "OpenAI pk (load_dotenv pk env) None")
    case (Inl e)
    with c have "client_for pk env = Inl e" by simp
    with Inl show ?thesis
      by (simp add: openai_agent_parameterized bioagents_openai_agent_parameterized
            run_constructor_raises issued_simps printed_simp)
  next
    case (Inr cl)
    with c have "client_for pk env = Inr cl" by simp
    with Inr show ?thesis
      by (simp add: openai_agent_parameterized bioagents_openai_agent_parameterized
            issued_parameterized)
  qed
qed

theorem absent_key_handed_to_constructor_witness:
  "api_key_after_load (mocked (Inr paris_completion)) env_empty = None \<and>
   fst (openai_agent (mocked (Inr paris_completion)) (start utf8_stdout env_empty)) =
     Uncaught (ProviderError ''The api_key client option must be set'') \<and>
   issued (openai_agent (mocked (Inr paris_completion)) (start utf8_stdout env_empty)) = [] \<and>
   printed (openai_agent (mocked (Inr paris_completion)) (start utf8_stdout env_empty)) = [] \<and>
   issued (bioagents_openai_agent (mocked (Inr paris_completion)) (start utf8_stdout env_empty)) =
     [] \<and>
   api_key_after_load (mocked (Inr paris_completion)) env_openai_api_key = None \<and>
   issued (bioagents_openai_agent (mocked (Inr paris_completion))
             (start utf8_stdout env_openai_api_key)) =
     [user_request ''Write me a one paragraph essay on World War II.'']"
proof -
  have absent:
    "api_key_after_load (mocked (Inr paris_completion)) env_empty = None"
    "api_key_after_load (mocked (Inr paris_completion)) env_openai_api_key = None"
    by (simp_all add: api_key_mocked)
  have constructor:
    "OpenAI (mocked (Inr paris_completion))
       (load_dotenv (mocked (Inr paris_completion)) env_empty) None =
     Inl ''The api_key client option must be set''"
    "OpenAI (mocked (Inr paris_completion))
       (load_dotenv (mocked (Inr paris_completion)) env_openai_api_key) None =
     Inr ''sk-other''"
    by (simp_all add: mocked_simps no_env_file_def key_or_variable_def env_empty_def
          env_openai_api_key_def)
  from absent_key_handed_to_constructor [OF absent(1), of utf8_stdout]
    absent_key_handed_to_constructor [OF absent(2), of utf8_stdout]
  show ?thesis
    by (simp add: constructor absent)
qed

text \<open>
  C5, as stated: in every run in which the key is absent, the failure surfaces at the
  authentication of the downstream completion call. Whether and where a run without the key
  fails is decided by the client. In the first run below the key is absent and the error is
  raised by the constructor: the completion call is never made, so nothing has been
  authenticated. In the second the key is absent, the constructor finds a key in the
  variable \<^verbatim>\<open>OPENAI_API_KEY\<close>, and the run does not fail at all.
\<close>

theorem absent_key_failure_not_at_authentication:
  "api_key_after_load (mocked (Inr two_choices_completion)) env_empty = None \<and>
   fst (bioagents_openai_agent (mocked (Inr two_choices_completion))
          (start utf8_stdout env_empty)) =
     Uncaught (ProviderError ''The api_key client option must be set'') \<and>
   issued (bioagents_openai_agent (mocked (Inr two_choices_completion))
             (start utf8_stdout env_empty)) = [] \<and>
   api_key_after_load (mocked (Inr two_choices_completion)) env_openai_api_key = None \<and>
   fst (bioagents_openai_agent (mocked (Inr two_choices_completion))
          (start utf8_stdout env_openai_api_key)) = Exit0"
  by (simp add: api_key_mocked bioagents_openai_agent_parameterized
        run_constructor_raises [OF client_for_mocked_empty] issued_simps
        run_prints [OF client_for_mocked_openai_api_key, of _ _ two_choices_completion
          "hd (choices two_choices_completion)" "tl (choices two_choices_completion)"]
        mocked_simps two_choices_completion_def encodable_examples)

text \<open>
  C5, amended: when the key is absent the scripts perform no validation of their own and
  substitute nothing for it: after loading, the run calls the constructor with \<^verbatim>\<open>None\<close>.
  The run ends with a provider error \<open>m\<close> exactly when the constructor raised \<open>m\<close>, or
  the constructor returned a client and the completion call raised \<open>m\<close>.
\<close>

theorem no_local_validation:
  assumes "api_key_after_load pk env = None"
  shows "take 2 (trace (snd (openai_agent pk (start enc env)))) = [Load, Construct None] \<and>
         (fst (openai_agent pk (start enc env)) = Uncaught (ProviderError m) \<longleftrightarrow>
            OpenAI pk (load_dotenv pk env) None = Inl m \<or>
            (\<exists>cl. OpenAI pk (load_dotenv pk env) None = Inr cl \<and>
                  create pk cl (user_request ''What is the capital of France?'') = Inl m)) \<and>
         take 2 (trace (snd (bioagents_openai_agent pk (start enc env)))) =
           [Load, Construct None] \<and>
         (fst (bioagents_openai_agent pk (start enc env)) = Uncaught (ProviderError m) \<longleftrightarrow>
            OpenAI pk (load_dotenv pk env) None = Inl m \<or>
            (\<exists>cl. OpenAI pk (load_dotenv pk env) None = Inr cl \<and>
                  create pk cl (user_request ''Write me a one paragraph essay on World War II.'')
                    = Inl m))"
proof -
  from assms have c: "OpenAI pk (load_dotenv pk env) None = client_for pk env"
    by (simp add: client_for_def)
  have "take 2 (trace (snd (parameterized_script prompt pk (start enc env)))) =
          [Load, Construct None] \<and>
        (fst (parameterized_script prompt pk (start enc env)) = Uncaught (ProviderError m) \<longleftrightarrow>
           client_for pk env = Inl m \<or>
           (\<exists>cl. client_for pk env = Inr cl \<and> create pk cl (user_request prompt) = Inl m))"
    for prompt
    by (rule run_cases [where pk = pk and env = env and prompt = prompt and enc = enc])
       (simp_all add: run_constructor_raises run_create_raises run_no_choice run_prints
          run_print_raises assms)
  then show ?thesis
    by (simp only: openai_agent_parameterized bioagents_openai_agent_parameterized c)
qed

theorem no_local_validation_witness:
  "api_key_after_load (mocked (Inl ''Incorrect API key provided'')) env_openai_api_key = None \<and>
   take 2 (trace (snd (openai_agent (mocked (Inl ''Incorrect API key provided''))
     (start utf8_stdout env_openai_api_key)))) = [Load, Construct None] \<and>
   fst (openai_agent (mocked (Inl ''Incorrect API key provided''))
          (start utf8_stdout env_openai_api_key)) =
     Uncaught (ProviderError ''Incorrect API key provided'')"
proof -
  have absent:
    "api_key_after_load (mocked (Inl ''Incorrect API key provided'')) env_openai_api_key = None"
    by (simp add: api_key_mocked)
  have constructor:
    "key_or_variable (no_env_file env_openai_api_key) None = Inr ''sk-other''"
    by (simp add: no_env_file_def key_or_variable_def env_openai_api_key_def)
  from no_local_validation [OF absent, of utf8_stdout "''Incorrect API key provided''"]
  show ?thesis
    by (simp add: constructor absent mocked_simps)
qed

subsection \<open>The request\<close>

text \<open>
  C2: every request a run issues has the model \<^verbatim>\<open>gpt-4.1-mini\<close> and exactly one message,
  a dict with the two keys \<^verbatim>\<open>role\<close> and \<^verbatim>\<open>content\<close>, whose role is \<^verbatim>\<open>user\<close> and whose
  content is the prompt literal of the script.
\<close>

theorem request_payload:
  "(\<forall>r \<in> set (issued (openai_agent pk (start enc env))).
      model r = ''gpt-4.1-mini'' \<and>
      messages r = [[''role'' \<mapsto> ''user'', ''content'' \<mapsto> ''What is the capital of France?'']]) \<and>
   (\<forall>r \<in> set (issued (bioagents_openai_agent pk (start enc env))).
      model r = ''gpt-4.1-mini'' \<and>
      messages r = [[''role'' \<mapsto> ''user'',
                     ''content'' \<mapsto> ''Write me a one paragraph essay on World War II.'']])"
  by (simp add: openai_agent_parameterized bioagents_openai_agent_parameterized
        issued_parameterized user_request_def split: sum.splits)

theorem request_payload_witness:
  "user_request ''What is the capital of France?''
     \<in> set (issued (openai_agent (mocked (Inr paris_completion))
                      (start utf8_stdout env_api_key))) \<and>
   model (user_request ''What is the capital of France?'') = ''gpt-4.1-mini'' \<and>
   messages (user_request ''What is the capital of France?'') =
     [[''role'' \<mapsto> ''user'', ''content'' \<mapsto> ''What is the capital of France?'']] \<and>
   user_request ''Write me a one paragraph essay on World War II.''
     \<in> set (issued (bioagents_openai_agent (mocked (Inr paris_completion))
                      (start utf8_stdout env_api_key))) \<and>
   messages (user_request ''Write me a one paragraph essay on World War II.'') =
     [[''role'' \<mapsto> ''user'',
       ''content'' \<mapsto> ''Write me a one paragraph essay on World War II.'']]"
proof -
  have sent:
    "user_request ''What is the capital of France?''
       \<in> set (issued (openai_agent (mocked (Inr paris_completion))
                        (start utf8_stdout env_api_key)))"
    "user_request ''Write me a one paragraph essay on World War II.''
       \<in> set (issued (bioagents_openai_agent (mocked (Inr paris_completion))
                        (start utf8_stdout env_api_key)))"
    by (simp_all add: openai_agent_parameterized bioagents_openai_agent_parameterized
          issued_parameterized client_for_mocked_api_key)
  from sent request_payload [of "mocked (Inr paris_completion)" utf8_stdout env_api_key]
  show ?thesis by blast
qed

text \<open>
  C8, as stated: every run issues exactly one chat-completion request. A run in which the
  client constructor raises never calls \<^verbatim>\<open>create\<close>, so it issues none.
\<close>

theorem no_request_when_constructor_raises:
  "length (issued (openai_agent (mocked (Inr paris_completion)) (start utf8_stdout env_home))) = 0 \<and>
   fst (openai_agent (mocked (Inr paris_completion)) (start utf8_stdout env_home)) =
     Uncaught (ProviderError ''The api_key client option must be set'')"
  by (simp add: openai_agent_parameterized run_constructor_raises [OF client_for_mocked_home]
        issued_simps)

text \<open>
  C8, amended: a run calls \<^verbatim>\<open>create\<close> at most once: not at all when the client constructor
  raises, exactly once when the constructor returns a client, and never a second time,
  whether the first call returns or raises. What the client sends over the network inside
  that call is not the script's. The calls a run makes are an initial segment of load
  configuration, construct client, call, print, and a run that exits normally has made all
  four.
\<close>

theorem create_called_at_most_once:
  "length (issued (openai_agent pk (start enc env))) =
     (case client_for pk env of Inl e \<Rightarrow> 0 | Inr cl \<Rightarrow> 1) \<and>
   prefix (steps (openai_agent pk (start enc env)))
     [Load_configuration, Construct_client, Call, Print_response] \<and>
   (fst (openai_agent pk (start enc env)) = Exit0 \<longrightarrow>
      steps (openai_agent pk (start enc env)) =
        [Load_configuration, Construct_client, Call, Print_response]) \<and>
   length (issued (bioagents_openai_agent pk (start enc env))) =
     (case client_for pk env of Inl e \<Rightarrow> 0 | Inr cl \<Rightarrow> 1) \<and>
   prefix (steps (bioagents_openai_agent pk (start enc env)))
     [Load_configuration, Construct_client, Call, Print_response] \<and>
   (fst (bioagents_openai_agent pk (start enc env)) = Exit0 \<longrightarrow>
      steps (bioagents_openai_agent pk (start enc env)) =
        [Load_configuration, Construct_client, Call, Print_response])"
proof -
  have "length (issued (parameterized_script prompt pk (start enc env))) =
          (case client_for pk env of Inl e \<Rightarrow> 0 | Inr cl \<Rightarrow> 1) \<and>
        prefix (steps (parameterized_script prompt pk (start enc env)))
          [Load_configuration, Construct_client, Call, Print_response] \<and>
        (fst (parameterized_script prompt pk (start enc env)) = Exit0 \<longrightarrow>
           steps (parameterized_script prompt pk (start enc env)) =
             [Load_configuration, Construct_client, Call, Print_response])" for prompt
    by (rule run_cases [where pk = pk and env = env and prompt = prompt and enc = enc])
       (simp_all add: run_constructor_raises run_create_raises run_no_choice run_prints
          run_print_raises issued_simps steps_simps)
  from this [of "''What is the capital of France?''"]
    this [of "''Write me a one paragraph essay on World War II.''"]
  show ?thesis
    by (simp add: openai_agent_parameterized bioagents_openai_agent_parameterized)
qed

theorem create_called_at_most_once_witness:
  "fst (openai_agent (mocked (Inr paris_completion)) (start utf8_stdout env_api_key)) = Exit0 \<and>
   steps (openai_agent (mocked (Inr paris_completion)) (start utf8_stdout env_api_key)) =
     [Load_configuration, Construct_client, Call, Print_response] \<and>
   length (issued (openai_agent (mocked (Inr paris_completion))
                     (start utf8_stdout env_api_key))) = 1 \<and>
   fst (bioagents_openai_agent (mocked (Inr paris_completion)) (start utf8_stdout env_api_key)) =
     Exit0 \<and>
   steps (bioagents_openai_agent (mocked (Inr paris_completion)) (start utf8_stdout env_api_key)) =
     [Load_configuration, Construct_client, Call, Print_response] \<and>
   length (issued (openai_agent (mocked (Inl ''Connection error.''))
                     (start utf8_stdout env_api_key))) = 1"
proof -
  have normal:
    "fst (openai_agent (mocked (Inr paris_completion)) (start utf8_stdout env_api_key)) = Exit0"
    "fst (bioagents_openai_agent (mocked (Inr paris_completion))
            (start utf8_stdout env_api_key)) = Exit0"
    by (simp_all add: openai_agent_parameterized bioagents_openai_agent_parameterized
          run_prints [OF client_for_mocked_api_key, of _ _ paris_completion
            "hd (choices paris_completion)" "[]"]
          mocked_simps paris_completion_def encodable_examples)
  from create_called_at_most_once [of "mocked (Inr paris_completion)" utf8_stdout env_api_key]
    create_called_at_most_once [of "mocked (Inl ''Connection error.'')" utf8_stdout env_api_key]
  show ?thesis
    by (simp add: normal client_for_mocked_api_key)
qed

subsection \<open>The response\<close>

text \<open>
  C3: in every run in which the completion call returns a response whose first choice has
  the message content \<^verbatim>\<open>Paris.\<close>, standard output holds exactly \<^verbatim>\<open>Paris.\<close> and a
  newline at the end of the run, and the process exits with status 0. The text is ASCII,
  so this holds under every encoding of standard output.
\<close>

theorem paris_printed:
  assumes "client_for pk env = Inr cl"
    and "choices resp = c # cs"
    and "content (message c) = Some ''Paris.''"
  shows "(create pk cl (user_request ''What is the capital of France?'') = Inr resp \<longrightarrow>
            printed (openai_agent pk (start enc env)) = ''Paris.'' @ [CHR 0x0A] \<and>
            fst (openai_agent pk (start enc env)) = Exit0 \<and>
            exit_status (fst (openai_agent pk (start enc env))) = 0) \<and>
         (create pk cl (user_request ''Write me a one paragraph essay on World War II.'') = Inr resp \<longrightarrow>
            printed (bioagents_openai_agent pk (start enc env)) = ''Paris.'' @ [CHR 0x0A] \<and>
            fst (bioagents_openai_agent pk (start enc env)) = Exit0 \<and>
            exit_status (fst (bioagents_openai_agent pk (start enc env))) = 0)"
  using assms
  by (simp add: openai_agent_parameterized bioagents_openai_agent_parameterized
        run_prints printed_simp encodable_examples)

theorem paris_printed_witness:
  "printed (openai_agent (mocked (Inr paris_completion)) (start ascii_stdout env_api_key)) =
     ''Paris.'' @ [CHR 0x0A] \<and>
   exit_status (fst (openai_agent (mocked (Inr paris_completion))
                       (start ascii_stdout env_api_key))) = 0 \<and>
   printed (bioagents_openai_agent (mocked (Inr paris_completion))
              (start ascii_stdout env_api_key)) = ''Paris.'' @ [CHR 0x0A] \<and>
   exit_status (fst (bioagents_openai_agent (mocked (Inr paris_completion))
                       (start ascii_stdout env_api_key))) = 0"
  using paris_printed [of "mocked (Inr paris_completion)" env_api_key "''sk-test''"
      paris_completion "hd (choices paris_completion)" "[]" ascii_stdout]
  by (simp add: client_for_mocked_api_key mocked_simps paris_completion_def)

text \<open>
  C4: in every run in which the completion call raises, the error propagates as the
  uncaught exception of the process, the exit status is not 0 and standard output is empty.
\<close>

theorem completion_error_propagates:
  assumes "client_for pk env = Inr cl"
  shows "(create pk cl (user_request ''What is the capital of France?'') = Inl e \<longrightarrow>
            fst (openai_agent pk (start enc env)) = Uncaught (ProviderError e) \<and>
            exit_status (fst (openai_agent pk (start enc env))) \<noteq> 0 \<and>
            printed (openai_agent pk (start enc env)) = []) \<and>
         (create pk cl (user_request ''Write me a one paragraph essay on World War II.'') = Inl e \<longrightarrow>
            fst (bioagents_openai_agent pk (start enc env)) = Uncaught (ProviderError e) \<and>
            exit_status (fst (bioagents_openai_agent pk (start enc env))) \<noteq> 0 \<and>
            printed (bioagents_openai_agent pk (start enc env)) = [])"
  using assms
  by (simp add: openai_agent_parameterized bioagents_openai_agent_parameterized
        run_create_raises printed_simp)

theorem completion_error_propagates_witness:
  "fst (openai_agent (mocked (Inl ''Connection error.'')) (start utf8_stdout env_api_key)) =
     Uncaught (ProviderError ''Connection error.'') \<and>
   exit_status (fst (openai_agent (mocked (Inl ''Connection error.''))
                       (start utf8_stdout env_api_key))) = 1 \<and>
   printed (openai_agent (mocked (Inl ''Connection error.'')) (start utf8_stdout env_api_key)) =
     [] \<and>
   fst (bioagents_openai_agent (mocked (Inl ''Connection error.''))
          (start utf8_stdout env_api_key)) =
     Uncaught (ProviderError ''Connection error.'') \<and>
   printed (bioagents_openai_agent (mocked (Inl ''Connection error.''))
              (start utf8_stdout env_api_key)) = []"
  using completion_error_propagates [of "mocked (Inl ''Connection error.'')" env_api_key
      "''sk-test''" "''Connection error.''" utf8_stdout]
  by (simp add: client_for_mocked_api_key mocked_simps)









subsection \<open>The two files\<close>

text \<open>
  C7: the two scripts are the same function of the prompt: each is the specification's
  parameterized script at its own literal, so they load the same variable, construct the
  client the same way, request the same model with one user message and print the same
  field.
\<close>

theorem scripts_differ_in_prompt_only:
  "openai_agent = parameterized_script ''What is the capital of France?'' \<and>
   bioagents_openai_agent =
     parameterized_script ''Write me a one paragraph essay on World War II.''"
  by (intro conjI ext)
     (rule openai_agent_parameterized bioagents_openai_agent_parameterized)+

end
